theory Spec2Isabelle
  imports Main
begin

section \<open>JavaScript values reaching the call selectors\<close>

text \<open>
  The call selectors of \<^verbatim>\<open>lib/web3/eth.js\<close> receive the caller's argument array and
  look at its element 0 only. A value is one of the primitives, an array or a plain
  object. The payload of a number is a type parameter: no selector ever inspects it, so
  every result below holds for whatever represents a JavaScript number. A string is the
  list of its characters; the only pattern the code searches for is the ASCII text
  \<^verbatim>\<open>0x\<close>.
\<close>

datatype 'n jsval =
    JUndefined
  | JNull
  | JBool bool
  | JNum 'n
  | JStr string
  | JArr "'n jsval list"
  | JObj "(string \<times> 'n jsval) list"

text \<open>The only exception a member call on a value can raise here.\<close>

datatype error = TypeError

text \<open>
  \<^verbatim>\<open>args[i]\<close>: reading an array beyond its length yields \<^verbatim>\<open>undefined\<close>, it does not
  raise.
\<close>

definition js_index :: "'n jsval list \<Rightarrow> nat \<Rightarrow> 'n jsval" where
  "js_index args i = (if i < length args then args ! i else JUndefined)"

text \<open>
  \<^verbatim>\<open>String.prototype.indexOf(pat)\<close>: the least position at which \<open>pat\<close> occurs in the
  string, or \<open>-1\<close> when it occurs nowhere. The search is exact on every character, so it
  distinguishes upper and lower case.
\<close>

fun str_indexOf_from :: "nat \<Rightarrow> string \<Rightarrow> string \<Rightarrow> int" where
  "str_indexOf_from k [] pat = (if pat = [] then int k else - 1)"
| "str_indexOf_from k (c # cs) pat =
     (if take (length pat) (c # cs) = pat then int k
      else str_indexOf_from (Suc k) cs pat)"

text \<open>
  \<^verbatim>\<open>Array.prototype.indexOf(pat)\<close> for a string \<open>pat\<close>: the least index whose element is
  strictly equal to the string, or \<open>-1\<close>.
\<close>

fun arr_indexOf_from :: "nat \<Rightarrow> 'n jsval list \<Rightarrow> string \<Rightarrow> int" where
  "arr_indexOf_from k [] pat = - 1"
| "arr_indexOf_from k (v # vs) pat =
     (if v = JStr pat then int k else arr_indexOf_from (Suc k) vs pat)"

text \<open>
  The member call \<^verbatim>\<open>v.indexOf(pat)\<close>. Strings and arrays have the method. On
  \<^verbatim>\<open>undefined\<close> and \<^verbatim>\<open>null\<close> the property read raises; on a boolean, a number or a
  plain object the property is not a function and the call raises.
\<close>

fun indexOf :: "'n jsval \<Rightarrow> string \<Rightarrow> error + int" where
  "indexOf (JStr s) pat = Inr (str_indexOf_from 0 s pat)"
| "indexOf (JArr vs) pat = Inr (arr_indexOf_from 0 vs pat)"
| "indexOf JUndefined pat = Inl TypeError"
| "indexOf JNull pat = Inl TypeError"
| "indexOf (JBool b) pat = Inl TypeError"
| "indexOf (JNum n) pat = Inl TypeError"
| "indexOf (JObj ps) pat = Inl TypeError"

text \<open>
  Modelled from the spec: \<^verbatim>\<open>utils.isString\<close> lives in \<^verbatim>\<open>lib/utils/utils.js\<close>, which
  is not among the sources. The spec reads the test as "it is a string value".
\<close>

fun isString :: "'n jsval \<Rightarrow> bool" where
  "isString (JStr s) = True"
| "isString v = False"

section \<open>The five call selectors\<close>

text \<open>
  Each selector is the expression
  \<^verbatim>\<open>(utils.isString(args[0]) && args[0].indexOf('0x') === 0) ? byHash : byNumber\<close>.
  The conjunction is short-circuit: the member call happens only when the test on the
  left holds. An exception of the member call would leave the function, so the result is
  a sum with the error on the left.
\<close>

definition blockCall :: "'n jsval list \<Rightarrow> error + string" where
  "blockCall args =
     (if isString (js_index args 0)
      then (case indexOf (js_index args 0) ''0x'' of
              Inl e \<Rightarrow> Inl e
            | Inr i \<Rightarrow> Inr (if i = 0 then ''eth_getBlockByHash''
                             else ''eth_getBlockByNumber''))
      else Inr ''eth_getBlockByNumber'')"

definition transactionFromBlockCall :: "'n jsval list \<Rightarrow> error + string" where
  "transactionFromBlockCall args =
     (if isString (js_index args 0)
      then (case indexOf (js_index args 0) ''0x'' of
              Inl e \<Rightarrow> Inl e
            | Inr i \<Rightarrow> Inr (if i = 0 then ''eth_getTransactionByBlockHashAndIndex''
                             else ''eth_getTransactionByBlockNumberAndIndex''))
      else Inr ''eth_getTransactionByBlockNumberAndIndex'')"

definition uncleCall :: "'n jsval list \<Rightarrow> error + string" where
  "uncleCall args =
     (if isString (js_index args 0)
      then (case indexOf (js_index args 0) ''0x'' of
              Inl e \<Rightarrow> Inl e
            | Inr i \<Rightarrow> Inr (if i = 0 then ''eth_getUncleByBlockHashAndIndex''
                             else ''eth_getUncleByBlockNumberAndIndex''))
      else Inr ''eth_getUncleByBlockNumberAndIndex'')"

definition getBlockTransactionCountCall :: "'n jsval list \<Rightarrow> error + string" where
  "getBlockTransactionCountCall args =
     (if isString (js_index args 0)
      then (case indexOf (js_index args 0) ''0x'' of
              Inl e \<Rightarrow> Inl e
            | Inr i \<Rightarrow> Inr (if i = 0 then ''eth_getBlockTransactionCountByHash''
                             else ''eth_getBlockTransactionCountByNumber''))
      else Inr ''eth_getBlockTransactionCountByNumber'')"

definition uncleCountCall :: "'n jsval list \<Rightarrow> error + string" where
  "uncleCountCall args =
     (if isString (js_index args 0)
      then (case indexOf (js_index args 0) ''0x'' of
              Inl e \<Rightarrow> Inl e
            | Inr i \<Rightarrow> Inr (if i = 0 then ''eth_getUncleCountByBlockHash''
                             else ''eth_getUncleCountByBlockNumber''))
      else Inr ''eth_getUncleCountByBlockNumber'')"

text \<open>
  The spec's wording of the test, to compare the selectors with: the value "is a string
  value beginning with the two-character prefix \<^verbatim>\<open>0x\<close>".
\<close>

fun spec_looks_like_hash :: "'n jsval \<Rightarrow> bool" where
  "spec_looks_like_hash (JStr s) = (take 2 s = ''0x'')"
| "spec_looks_like_hash v = False"

section \<open>The call selectors as steps on the caller's state\<close>

text \<open>
  The argument array is handed over by reference, so a write to it, or to anything else
  on the heap, would be seen by the caller. The state a selector runs in is the content
  of that array together with the rest of the heap, whose type is left open. A step takes
  the state and returns its outcome and the state it leaves.
\<close>

type_synonym ('n, 'h) js_state = "'n jsval list \<times> 'h"

type_synonym ('a, 'n, 'h) js_step = "('n, 'h) js_state \<Rightarrow> (error + 'a) \<times> ('n, 'h) js_state"

definition js_return :: "'a \<Rightarrow> ('a, 'n, 'h) js_step" where
  "js_return x \<sigma> = (Inr x, \<sigma>)"

text \<open>Sequencing: an exception of the first step ends the evaluation.\<close>

definition js_bind ::
  "('a, 'n, 'h) js_step \<Rightarrow> ('a \<Rightarrow> ('b, 'n, 'h) js_step) \<Rightarrow> ('b, 'n, 'h) js_step" where
  "js_bind m f \<sigma> =
     (case m \<sigma> of
        (Inl e, \<sigma>') \<Rightarrow> (Inl e, \<sigma>')
      | (Inr x, \<sigma>') \<Rightarrow> f x \<sigma>')"

text \<open>\<^verbatim>\<open>args[i]\<close> reads the array and leaves it as it is.\<close>

definition read_args :: "nat \<Rightarrow> ('n jsval, 'n, 'h) js_step" where
  "read_args i \<sigma> = (Inr (js_index (fst \<sigma>) i), \<sigma>)"

text \<open>
  Modelled from the spec: the call \<^verbatim>\<open>utils.isString(v)\<close>, whose code is not among the
  sources; the spec has it a test on the value and nothing more.
\<close>

definition call_isString :: "'n jsval \<Rightarrow> (bool, 'n, 'h) js_step" where
  "call_isString v \<sigma> = (Inr (isString v), \<sigma>)"

text \<open>
  The member call \<^verbatim>\<open>v.indexOf(pat)\<close>: the built-in search writes nothing; where the
  value has no such method the call raises.
\<close>

definition call_indexOf :: "'n jsval \<Rightarrow> string \<Rightarrow> (int, 'n, 'h) js_step" where
  "call_indexOf v pat \<sigma> = (indexOf v pat, \<sigma>)"

text \<open>
  The selectors again, operation by operation in evaluation order: read \<^verbatim>\<open>args[0]\<close>,
  call \<^verbatim>\<open>utils.isString\<close>, and only when it holds read \<^verbatim>\<open>args[0]\<close> once more, call
  \<^verbatim>\<open>indexOf\<close> and compare with 0. The bodies contain no assignment and no other call.
\<close>

definition blockCall_run :: "(string, 'n, 'h) js_step" where
  "blockCall_run =
     js_bind (read_args 0) (\<lambda>a.
     js_bind (call_isString a) (\<lambda>b.
       if b then
         js_bind (read_args 0) (\<lambda>a'.
         js_bind (call_indexOf a' ''0x'') (\<lambda>i.
           js_return (if i = 0 then ''eth_getBlockByHash''
                      else ''eth_getBlockByNumber'')))
       else js_return ''eth_getBlockByNumber''))"

definition transactionFromBlockCall_run :: "(string, 'n, 'h) js_step" where
  "transactionFromBlockCall_run =
     js_bind (read_args 0) (\<lambda>a.
     js_bind (call_isString a) (\<lambda>b.
       if b then
         js_bind (read_args 0) (\<lambda>a'.
         js_bind (call_indexOf a' ''0x'') (\<lambda>i.
           js_return (if i = 0 then ''eth_getTransactionByBlockHashAndIndex''
                      else ''eth_getTransactionByBlockNumberAndIndex'')))
       else js_return ''eth_getTransactionByBlockNumberAndIndex''))"

definition uncleCall_run :: "(string, 'n, 'h) js_step" where
  "uncleCall_run =
     js_bind (read_args 0) (\<lambda>a.
     js_bind (call_isString a) (\<lambda>b.
       if b then
         js_bind (read_args 0) (\<lambda>a'.
         js_bind (call_indexOf a' ''0x'') (\<lambda>i.
           js_return (if i = 0 then ''eth_getUncleByBlockHashAndIndex''
                      else ''eth_getUncleByBlockNumberAndIndex'')))
       else js_return ''eth_getUncleByBlockNumberAndIndex''))"

definition getBlockTransactionCountCall_run :: "(string, 'n, 'h) js_step" where
  "getBlockTransactionCountCall_run =
     js_bind (read_args 0) (\<lambda>a.
     js_bind (call_isString a) (\<lambda>b.
       if b then
         js_bind (read_args 0) (\<lambda>a'.
         js_bind (call_indexOf a' ''0x'') (\<lambda>i.
           js_return (if i = 0 then ''eth_getBlockTransactionCountByHash''
                      else ''eth_getBlockTransactionCountByNumber'')))
       else js_return ''eth_getBlockTransactionCountByNumber''))"

definition uncleCountCall_run :: "(string, 'n, 'h) js_step" where
  "uncleCountCall_run =
     js_bind (read_args 0) (\<lambda>a.
     js_bind (call_isString a) (\<lambda>b.
       if b then
         js_bind (read_args 0) (\<lambda>a'.
         js_bind (call_indexOf a' ''0x'') (\<lambda>i.
           js_return (if i = 0 then ''eth_getUncleCountByBlockHash''
                      else ''eth_getUncleCountByBlockNumber'')))
       else js_return ''eth_getUncleCountByBlockNumber''))"

section \<open>Method and property descriptors\<close>

text \<open>
  Modelled from the spec: the formatter functions live in \<^verbatim>\<open>lib/web3/formatters.js\<close>
  and \<^verbatim>\<open>lib/utils/utils.js\<close>, which are not among the sources. The tables only hold
  references to them, so a formatter is the name of the member the source reads: the
  spec's "numeric" is \<^verbatim>\<open>formatters.inputNumberFormatter\<close>, "decimal" is
  \<^verbatim>\<open>utils.toDecimal\<close>, "hex" is \<^verbatim>\<open>utils.toHex\<close>.
\<close>

datatype formatter =
    formatters_inputNumberFormatter
  | formatters_inputBlockFormatter
  | formatters_inputUncleFormatter
  | formatters_inputTransactionFormatter
  | formatters_inputCallFormatter
  | formatters_outputBlockFormatter
  | formatters_outputTransactionFormatter
  | utils_toDecimal
  | utils_toHex

text \<open>
  An input formatter "can be a formatter function or an array of functions, where each
  item in the array will be used for one parameter" (the comment at the head of the
  file).
\<close>

datatype input_formatter = Single formatter | PerArgument "formatter list"

text \<open>The \<^verbatim>\<open>call\<close> member is a selector string or a function of the argument array.\<close>

datatype 'n call_variant =
    Fixed string
  | Selector "'n jsval list \<Rightarrow> error + string"

text \<open>
  A property descriptor is an object literal of the \<^verbatim>\<open>properties\<close> array. A member
  the literal does not write is \<open>None\<close>.
\<close>

record property_descriptor =
  name :: string
  getter :: string
  setter :: "string option"
  outputFormatter :: "formatter option"
  deprecated :: "string option"

text \<open>
  Modelled from the spec: the constructor \<^verbatim>\<open>Method\<close> lives in
  \<^verbatim>\<open>lib/web3/method.js\<close>, which is not among the sources. The spec's MethodDescriptor
  has a name, a call, a paramCount, an optional inputFormatter and an optional
  outputFormatter; the constructor stores the members of the options object it is
  given, the member \<^verbatim>\<open>params\<close> as the paramCount.
\<close>

record 'n method_descriptor =
  name :: string
  call :: "'n call_variant"
  paramCount :: int
  inputFormatter :: "input_formatter option"
  outputFormatter :: "formatter option"

text \<open>
  The options object handed to \<^verbatim>\<open>new Method\<close>, with the member names of the source.
  Every literal of the file writes \<^verbatim>\<open>name\<close>, \<^verbatim>\<open>call\<close> and \<^verbatim>\<open>params\<close>; a formatter
  the literal does not write is \<open>None\<close>.
\<close>

record 'n method_options =
  name :: string
  call :: "'n call_variant"
  params :: int
  inputFormatter :: "input_formatter option"
  outputFormatter :: "formatter option"

definition Method :: "'n method_options \<Rightarrow> 'n method_descriptor" where
  "Method options =
     \<lparr> method_descriptor.name = method_options.name options,
       method_descriptor.call = method_options.call options,
       paramCount = params options,
       method_descriptor.inputFormatter = method_options.inputFormatter options,
       method_descriptor.outputFormatter = method_options.outputFormatter options \<rparr>"

definition getBalance :: "'n method_descriptor" where
  "getBalance = Method
     \<lparr> name = ''getBalance'',
       call = Fixed ''eth_getBalance'',
       params = 2,
       inputFormatter = None,
       outputFormatter = Some formatters_inputNumberFormatter \<rparr>"

definition getStorageAt :: "'n method_descriptor" where
  "getStorageAt = Method
     \<lparr> name = ''getStorageAt'',
       call = Fixed ''eth_getStorageAt'',
       params = 3,
       inputFormatter = None,
       outputFormatter = None \<rparr>"

definition getCode :: "'n method_descriptor" where
  "getCode = Method
     \<lparr> name = ''getCode'',
       call = Fixed ''eth_getCode'',
       params = 2,
       inputFormatter = None,
       outputFormatter = None \<rparr>"

definition getBlock :: "'n method_descriptor" where
  "getBlock = Method
     \<lparr> name = ''getBlock'',
       call = Selector blockCall,
       params = 1,
       inputFormatter = Some (Single formatters_inputBlockFormatter),
       outputFormatter = Some formatters_outputBlockFormatter \<rparr>"

definition getUncle :: "'n method_descriptor" where
  "getUncle = Method
     \<lparr> name = ''getUncle'',
       call = Selector uncleCall,
       params = 1,
       inputFormatter = Some (Single formatters_inputUncleFormatter),
       outputFormatter = Some formatters_outputBlockFormatter \<rparr>"

definition getCompilers :: "'n method_descriptor" where
  "getCompilers = Method
     \<lparr> name = ''getCompilers'',
       call = Fixed ''eth_getCompilers'',
       params = 0,
       inputFormatter = None,
       outputFormatter = None \<rparr>"

definition getBlockTransactounCount :: "'n method_descriptor" where
  "getBlockTransactounCount = Method
     \<lparr> name = ''getBlockTransactionCount'',
       call = Selector getBlockTransactionCountCall,
       params = 1,
       inputFormatter = Some (Single utils_toHex),
       outputFormatter = Some utils_toDecimal \<rparr>"

definition getBlockUncleCount :: "'n method_descriptor" where
  "getBlockUncleCount = Method
     \<lparr> name = ''getBlockUncleCount'',
       call = Selector uncleCountCall,
       params = 1,
       inputFormatter = Some (Single utils_toHex),
       outputFormatter = Some utils_toDecimal \<rparr>"

definition getTransaction :: "'n method_descriptor" where
  "getTransaction = Method
     \<lparr> name = ''getTransaction'',
       call = Fixed ''eth_getTransactionByHash'',
       params = 1,
       inputFormatter = None,
       outputFormatter = Some formatters_outputTransactionFormatter \<rparr>"

definition getTransactionFromBlock :: "'n method_descriptor" where
  "getTransactionFromBlock = Method
     \<lparr> name = ''getTransactionFromBlock'',
       call = Selector transactionFromBlockCall,
       params = 2,
       inputFormatter = Some (Single utils_toHex),
       outputFormatter = Some formatters_outputTransactionFormatter \<rparr>"

definition getTransactionCount :: "'n method_descriptor" where
  "getTransactionCount = Method
     \<lparr> name = ''getTransactionCount'',
       call = Fixed ''eth_getTransactionCount'',
       params = 2,
       inputFormatter = None,
       outputFormatter = Some utils_toDecimal \<rparr>"

definition sendTransaction :: "'n method_descriptor" where
  "sendTransaction = Method
     \<lparr> name = ''sendTransaction'',
       call = Fixed ''eth_sendTransaction'',
       params = 1,
       inputFormatter = Some (Single formatters_inputTransactionFormatter),
       outputFormatter = None \<rparr>"

text \<open>The source's variable \<^verbatim>\<open>call\<close>; the plain name is the record member's.\<close>

definition call_method :: "'n method_descriptor" where
  "call_method = Method
     \<lparr> name = ''call'',
       call = Fixed ''eth_call'',
       params = 2,
       inputFormatter = Some (Single formatters_inputCallFormatter),
       outputFormatter = None \<rparr>"

definition compileSolidity :: "'n method_descriptor" where
  "compileSolidity = Method
     \<lparr> name = ''compile.solidity'',
       call = Fixed ''eth_compileSolidity'',
       params = 1,
       inputFormatter = None,
       outputFormatter = None \<rparr>"

definition compileLLL :: "'n method_descriptor" where
  "compileLLL = Method
     \<lparr> name = ''compile.lll'',
       call = Fixed ''eth_compileLLL'',
       params = 1,
       inputFormatter = Some (Single utils_toHex),
       outputFormatter = None \<rparr>"

definition compileSerpent :: "'n method_descriptor" where
  "compileSerpent = Method
     \<lparr> name = ''compile.serpent'',
       call = Fixed ''eth_compileSerpent'',
       params = 1,
       inputFormatter = Some (Single utils_toHex),
       outputFormatter = None \<rparr>"

definition flush :: "'n method_descriptor" where
  "flush = Method
     \<lparr> name = ''flush'',
       call = Fixed ''eth_flush'',
       params = 0,
       inputFormatter = None,
       outputFormatter = None \<rparr>"

definition methods :: "'n method_descriptor list" where
  "methods =
     [getBalance, getStorageAt, getCode, getBlock, getUncle, getCompilers,
      getBlockTransactounCount, getBlockUncleCount, getTransaction,
      getTransactionFromBlock, getTransactionCount, call_method, sendTransaction,
      compileSolidity, compileLLL, compileSerpent, flush]"

definition properties :: "property_descriptor list" where
  "properties =
     [\<lparr> property_descriptor.name = ''coinbase'', getter = ''eth_coinbase'',
        setter = None, property_descriptor.outputFormatter = None, deprecated = None \<rparr>,
      \<lparr> property_descriptor.name = ''mining'', getter = ''eth_mining'',
        setter = None, property_descriptor.outputFormatter = None, deprecated = None \<rparr>,
      \<lparr> property_descriptor.name = ''gasPrice'', getter = ''eth_gasPrice'',
        setter = None,
        property_descriptor.outputFormatter = Some formatters_inputNumberFormatter,
        deprecated = None \<rparr>,
      \<lparr> property_descriptor.name = ''accounts'', getter = ''eth_accounts'',
        setter = None, property_descriptor.outputFormatter = None, deprecated = None \<rparr>,
      \<lparr> property_descriptor.name = ''blockNumber'', getter = ''eth_blockNumber'',
        setter = None, property_descriptor.outputFormatter = Some utils_toDecimal,
        deprecated = None \<rparr>,
      \<lparr> property_descriptor.name = ''listening'', getter = ''net_listening'',
        setter = Some ''eth_setListening'', property_descriptor.outputFormatter = None,
        deprecated = Some ''net.listening'' \<rparr>,
      \<lparr> property_descriptor.name = ''peerCount'', getter = ''net_peerCount'',
        setter = None, property_descriptor.outputFormatter = None,
        deprecated = Some ''net.peerCount'' \<rparr>,
      \<lparr> property_descriptor.name = ''number'', getter = ''eth_number'',
        setter = None, property_descriptor.outputFormatter = None,
        deprecated = Some ''eth.blockNumber'' \<rparr>]"

section \<open>Facts about the search and the test\<close>

lemma str_indexOf_from_range:
  "str_indexOf_from k s pat = - 1 \<or> int k \<le> str_indexOf_from k s pat"
proof (induction s arbitrary: k)
  case Nil
  show ?case by simp
next
  case (Cons c cs)
  from Cons.IH [of "Suc k"] show ?case by auto
qed

lemma str_indexOf_from_here:
  "str_indexOf_from k s pat = int k \<longleftrightarrow> take (length pat) s = pat"
proof (cases s)
  case Nil
  then show ?thesis by auto
next
  case (Cons c cs)
  from str_indexOf_from_range [of "Suc k" cs pat]
  have "str_indexOf_from (Suc k) cs pat \<noteq> int k" by auto
  with Cons show ?thesis by simp
qed

lemma str_indexOf_0x: "str_indexOf_from 0 s ''0x'' = 0 \<longleftrightarrow> take 2 s = ''0x''"
  using str_indexOf_from_here [of 0 s "''0x''"] by (simp add: numeral_2_eq_2)

text \<open>
  The shape every selector has: guarded by \<open>isString\<close>, the member call never raises,
  and the whole test is the spec's.
\<close>

lemma selector_shape:
  "(if isString v
    then (case indexOf v ''0x'' of
            Inl e \<Rightarrow> Inl e
          | Inr i \<Rightarrow> Inr (if i = 0 then h else n))
    else Inr n)
   = Inr (if spec_looks_like_hash v then h else n)"
  by (cases v) (simp_all add: str_indexOf_0x)

lemma blockCall_eq:
  "blockCall args =
     Inr (if spec_looks_like_hash (js_index args 0)
          then ''eth_getBlockByHash'' else ''eth_getBlockByNumber'')"
  unfolding blockCall_def by (rule selector_shape)

lemma transactionFromBlockCall_eq:
  "transactionFromBlockCall args =
     Inr (if spec_looks_like_hash (js_index args 0)
          then ''eth_getTransactionByBlockHashAndIndex''
          else ''eth_getTransactionByBlockNumberAndIndex'')"
  unfolding transactionFromBlockCall_def by (rule selector_shape)

lemma uncleCall_eq:
  "uncleCall args =
     Inr (if spec_looks_like_hash (js_index args 0)
          then ''eth_getUncleByBlockHashAndIndex''
          else ''eth_getUncleByBlockNumberAndIndex'')"
  unfolding uncleCall_def by (rule selector_shape)

lemma getBlockTransactionCountCall_eq:
  "getBlockTransactionCountCall args =
     Inr (if spec_looks_like_hash (js_index args 0)
          then ''eth_getBlockTransactionCountByHash''
          else ''eth_getBlockTransactionCountByNumber'')"
  unfolding getBlockTransactionCountCall_def by (rule selector_shape)

lemma uncleCountCall_eq:
  "uncleCountCall args =
     Inr (if spec_looks_like_hash (js_index args 0)
          then ''eth_getUncleCountByBlockHash''
          else ''eth_getUncleCountByBlockNumber'')"
  unfolding uncleCountCall_def by (rule selector_shape)

lemmas selector_eqs =
  blockCall_eq transactionFromBlockCall_eq uncleCall_eq
  getBlockTransactionCountCall_eq uncleCountCall_eq

lemma js_index_Nil: "js_index [] i = JUndefined"
  by (simp add: js_index_def)

lemma js_index_Cons_0: "js_index (v # vs) 0 = v"
  by (simp add: js_index_def)

text \<open>
  Run as steps, a selector leaves the state it was given and returns what the selector
  as a function of the array content returns.
\<close>

lemma run_shape:
  "js_bind (read_args 0) (\<lambda>a.
   js_bind (call_isString a) (\<lambda>b.
     if b then
       js_bind (read_args 0) (\<lambda>a'.
       js_bind (call_indexOf a' ''0x'') (\<lambda>i.
         js_return (if i = 0 then h else n)))
     else js_return n)) \<sigma>
   = ((if isString (js_index (fst \<sigma>) 0)
       then (case indexOf (js_index (fst \<sigma>) 0) ''0x'' of
               Inl e \<Rightarrow> Inl e
             | Inr i \<Rightarrow> Inr (if i = 0 then h else n))
       else Inr n), \<sigma>)"
  by (simp add: js_bind_def read_args_def call_isString_def call_indexOf_def js_return_def
      split: sum.split)

lemma blockCall_run_eq: "blockCall_run \<sigma> = (blockCall (fst \<sigma>), \<sigma>)"
  unfolding blockCall_run_def blockCall_def by (rule run_shape)

lemma transactionFromBlockCall_run_eq:
  "transactionFromBlockCall_run \<sigma> = (transactionFromBlockCall (fst \<sigma>), \<sigma>)"
  unfolding transactionFromBlockCall_run_def transactionFromBlockCall_def
  by (rule run_shape)

lemma uncleCall_run_eq: "uncleCall_run \<sigma> = (uncleCall (fst \<sigma>), \<sigma>)"
  unfolding uncleCall_run_def uncleCall_def by (rule run_shape)

lemma getBlockTransactionCountCall_run_eq:
  "getBlockTransactionCountCall_run \<sigma> = (getBlockTransactionCountCall (fst \<sigma>), \<sigma>)"
  unfolding getBlockTransactionCountCall_run_def getBlockTransactionCountCall_def
  by (rule run_shape)

lemma uncleCountCall_run_eq: "uncleCountCall_run \<sigma> = (uncleCountCall (fst \<sigma>), \<sigma>)"
  unfolding uncleCountCall_run_def uncleCountCall_def by (rule run_shape)

lemmas selector_run_eqs =
  blockCall_run_eq transactionFromBlockCall_run_eq uncleCall_run_eq
  getBlockTransactionCountCall_run_eq uncleCountCall_run_eq

section \<open>The call selectors\<close>

text \<open>
  C1. For each of the five call selectors and every argument list: when element 0 is a
  string beginning with the two characters \<^verbatim>\<open>0x\<close> the selector returns its by-hash
  name, and for any other element 0 (a number, another string, \<^verbatim>\<open>undefined\<close>, an
  object) it returns its by-number name.
\<close>

theorem selectors_follow_prefix_rule:
  "blockCall args =
     Inr (if spec_looks_like_hash (js_index args 0)
          then ''eth_getBlockByHash'' else ''eth_getBlockByNumber'')
   \<and> transactionFromBlockCall args =
     Inr (if spec_looks_like_hash (js_index args 0)
          then ''eth_getTransactionByBlockHashAndIndex''
          else ''eth_getTransactionByBlockNumberAndIndex'')
   \<and> uncleCall args =
     Inr (if spec_looks_like_hash (js_index args 0)
          then ''eth_getUncleByBlockHashAndIndex''
          else ''eth_getUncleByBlockNumberAndIndex'')
   \<and> getBlockTransactionCountCall args =
     Inr (if spec_looks_like_hash (js_index args 0)
          then ''eth_getBlockTransactionCountByHash''
          else ''eth_getBlockTransactionCountByNumber'')
   \<and> uncleCountCall args =
     Inr (if spec_looks_like_hash (js_index args 0)
          then ''eth_getUncleCountByBlockHash''
          else ''eth_getUncleCountByBlockNumber'')"
  using blockCall_eq [of args] transactionFromBlockCall_eq [of args] uncleCall_eq [of args]
    getBlockTransactionCountCall_eq [of args] uncleCountCall_eq [of args]
  by blast

theorem selectors_follow_prefix_rule_witness:
  "blockCall [JStr ''0xabc123'' :: int jsval] = Inr ''eth_getBlockByHash''
   \<and> blockCall [JNum (1234 :: int)] = Inr ''eth_getBlockByNumber''
   \<and> uncleCall [JStr ''latest'' :: int jsval] = Inr ''eth_getUncleByBlockNumberAndIndex''
   \<and> getBlockTransactionCountCall [JStr ''0xdead'' :: int jsval] =
       Inr ''eth_getBlockTransactionCountByHash''
   \<and> transactionFromBlockCall [JObj [] :: int jsval, JNum 0] =
       Inr ''eth_getTransactionByBlockNumberAndIndex''
   \<and> uncleCountCall ([] :: int jsval list) = Inr ''eth_getUncleCountByBlockNumber''"
  using selectors_follow_prefix_rule [of "[JStr ''0xabc123'' :: int jsval]"]
    selectors_follow_prefix_rule [of "[JNum (1234 :: int)]"]
    selectors_follow_prefix_rule [of "[JStr ''latest'' :: int jsval]"]
    selectors_follow_prefix_rule [of "[JStr ''0xdead'' :: int jsval]"]
    selectors_follow_prefix_rule [of "[JObj [] :: int jsval, JNum 0]"]
    selectors_follow_prefix_rule [of "[] :: int jsval list"]
  by (simp add: js_index_def)

text \<open>
  C5. Every call selector is total on argument lists and free of side effects. For every
  list, the empty one included, it returns one of its two names and never raises.
  Whenever element 0 is not a string beginning with \<^verbatim>\<open>0x\<close> (it is absent,
  \<^verbatim>\<open>undefined\<close>, \<^verbatim>\<open>null\<close>, a boolean, a number, an array, an object or another
  string) it returns the by-number name. Run on the caller's state, it leaves the
  argument array and the rest of the heap exactly as it found them, and its result is
  the one determined by the array content.
\<close>

theorem selectors_total:
  "(blockCall args = Inr ''eth_getBlockByHash''
      \<or> blockCall args = Inr ''eth_getBlockByNumber'')
   \<and> (transactionFromBlockCall args = Inr ''eth_getTransactionByBlockHashAndIndex''
      \<or> transactionFromBlockCall args = Inr ''eth_getTransactionByBlockNumberAndIndex'')
   \<and> (uncleCall args = Inr ''eth_getUncleByBlockHashAndIndex''
      \<or> uncleCall args = Inr ''eth_getUncleByBlockNumberAndIndex'')
   \<and> (getBlockTransactionCountCall args = Inr ''eth_getBlockTransactionCountByHash''
      \<or> getBlockTransactionCountCall args = Inr ''eth_getBlockTransactionCountByNumber'')
   \<and> (uncleCountCall args = Inr ''eth_getUncleCountByBlockHash''
      \<or> uncleCountCall args = Inr ''eth_getUncleCountByBlockNumber'')
   \<and> map (\<lambda>f. f ([] :: 'n jsval list))
        [blockCall, transactionFromBlockCall, uncleCall, getBlockTransactionCountCall,
         uncleCountCall]
      = map Inr [''eth_getBlockByNumber'', ''eth_getTransactionByBlockNumberAndIndex'',
          ''eth_getUncleByBlockNumberAndIndex'', ''eth_getBlockTransactionCountByNumber'',
          ''eth_getUncleCountByBlockNumber'']
   \<and> map (\<lambda>f. f (JUndefined # (rest :: 'n jsval list)))
        [blockCall, transactionFromBlockCall, uncleCall, getBlockTransactionCountCall,
         uncleCountCall]
      = map Inr [''eth_getBlockByNumber'', ''eth_getTransactionByBlockNumberAndIndex'',
          ''eth_getUncleByBlockNumberAndIndex'', ''eth_getBlockTransactionCountByNumber'',
          ''eth_getUncleCountByBlockNumber'']
   \<and> map (\<lambda>f. f (JNull # (rest :: 'n jsval list)))
        [blockCall, transactionFromBlockCall, uncleCall, getBlockTransactionCountCall,
         uncleCountCall]
      = map Inr [''eth_getBlockByNumber'', ''eth_getTransactionByBlockNumberAndIndex'',
          ''eth_getUncleByBlockNumberAndIndex'', ''eth_getBlockTransactionCountByNumber'',
          ''eth_getUncleCountByBlockNumber'']
   \<and> (\<not> spec_looks_like_hash (js_index (args :: 'n jsval list) 0) \<longrightarrow>
        blockCall args = Inr ''eth_getBlockByNumber''
        \<and> transactionFromBlockCall args = Inr ''eth_getTransactionByBlockNumberAndIndex''
        \<and> uncleCall args = Inr ''eth_getUncleByBlockNumberAndIndex''
        \<and> getBlockTransactionCountCall args = Inr ''eth_getBlockTransactionCountByNumber''
        \<and> uncleCountCall args = Inr ''eth_getUncleCountByBlockNumber'')
   \<and> (\<forall>v. (\<forall>s. v \<noteq> JStr s) \<longrightarrow>
        map (\<lambda>f. f (v # (rest :: 'n jsval list)))
          [blockCall, transactionFromBlockCall, uncleCall, getBlockTransactionCountCall,
           uncleCountCall]
        = map Inr [''eth_getBlockByNumber'', ''eth_getTransactionByBlockNumberAndIndex'',
            ''eth_getUncleByBlockNumberAndIndex'', ''eth_getBlockTransactionCountByNumber'',
            ''eth_getUncleCountByBlockNumber''])
   \<and> blockCall_run (\<sigma> :: ('n, 'h) js_state) = (blockCall (fst \<sigma>), \<sigma>)
   \<and> transactionFromBlockCall_run \<sigma> = (transactionFromBlockCall (fst \<sigma>), \<sigma>)
   \<and> uncleCall_run \<sigma> = (uncleCall (fst \<sigma>), \<sigma>)
   \<and> getBlockTransactionCountCall_run \<sigma> = (getBlockTransactionCountCall (fst \<sigma>), \<sigma>)
   \<and> uncleCountCall_run \<sigma> = (uncleCountCall (fst \<sigma>), \<sigma>)"
proof -
  have not_string: "\<not> spec_looks_like_hash v" if "\<forall>s. v \<noteq> JStr s" for v :: "'n jsval"
    using that by (cases v) simp_all
  have total: "(blockCall args = Inr ''eth_getBlockByHash''
      \<or> blockCall args = Inr ''eth_getBlockByNumber'')
   \<and> (transactionFromBlockCall args = Inr ''eth_getTransactionByBlockHashAndIndex''
      \<or> transactionFromBlockCall args = Inr ''eth_getTransactionByBlockNumberAndIndex'')
   \<and> (uncleCall args = Inr ''eth_getUncleByBlockHashAndIndex''
      \<or> uncleCall args = Inr ''eth_getUncleByBlockNumberAndIndex'')
   \<and> (getBlockTransactionCountCall args = Inr ''eth_getBlockTransactionCountByHash''
      \<or> getBlockTransactionCountCall args = Inr ''eth_getBlockTransactionCountByNumber'')
   \<and> (uncleCountCall args = Inr ''eth_getUncleCountByBlockHash''
      \<or> uncleCountCall args = Inr ''eth_getUncleCountByBlockNumber'')"
    by (simp add: selector_eqs)
  have absent: "map (\<lambda>f. f ([] :: 'n jsval list))
        [blockCall, transactionFromBlockCall, uncleCall, getBlockTransactionCountCall,
         uncleCountCall]
      = map Inr [''eth_getBlockByNumber'', ''eth_getTransactionByBlockNumberAndIndex'',
          ''eth_getUncleByBlockNumberAndIndex'', ''eth_getBlockTransactionCountByNumber'',
          ''eth_getUncleCountByBlockNumber'']"
    by (simp add: selector_eqs js_index_Nil)
  have other: "map (\<lambda>f. f (v # rest))
          [blockCall, transactionFromBlockCall, uncleCall, getBlockTransactionCountCall,
           uncleCountCall]
        = map Inr [''eth_getBlockByNumber'', ''eth_getTransactionByBlockNumberAndIndex'',
            ''eth_getUncleByBlockNumberAndIndex'', ''eth_getBlockTransactionCountByNumber'',
            ''eth_getUncleCountByBlockNumber'']"
    if "\<forall>s. v \<noteq> JStr s" for v :: "'n jsval"
    using not_string [OF that] by (simp add: selector_eqs js_index_Cons_0)
  have fall: "\<not> spec_looks_like_hash (js_index args 0) \<longrightarrow>
        blockCall args = Inr ''eth_getBlockByNumber''
        \<and> transactionFromBlockCall args = Inr ''eth_getTransactionByBlockNumberAndIndex''
        \<and> uncleCall args = Inr ''eth_getUncleByBlockNumberAndIndex''
        \<and> getBlockTransactionCountCall args = Inr ''eth_getBlockTransactionCountByNumber''
        \<and> uncleCountCall args = Inr ''eth_getUncleCountByBlockNumber''"
    by (simp add: selector_eqs)
  have pure: "blockCall_run \<sigma> = (blockCall (fst \<sigma>), \<sigma>)
   \<and> transactionFromBlockCall_run \<sigma> = (transactionFromBlockCall (fst \<sigma>), \<sigma>)
   \<and> uncleCall_run \<sigma> = (uncleCall (fst \<sigma>), \<sigma>)
   \<and> getBlockTransactionCountCall_run \<sigma> = (getBlockTransactionCountCall (fst \<sigma>), \<sigma>)
   \<and> uncleCountCall_run \<sigma> = (uncleCountCall (fst \<sigma>), \<sigma>)"
    by (simp add: selector_run_eqs)
  from total absent other [of JUndefined] other [of JNull] fall other pure
  show ?thesis by simp
qed

theorem selectors_total_witness:
  "\<not> spec_looks_like_hash (js_index [JArr [JStr ''0x''], JNum (1 :: int)] 0)
   \<and> blockCall [JArr [JStr ''0x''], JNum (1 :: int)] = Inr ''eth_getBlockByNumber''
   \<and> transactionFromBlockCall [JArr [JStr ''0x''], JNum (1 :: int)] =
       Inr ''eth_getTransactionByBlockNumberAndIndex''
   \<and> uncleCall [JArr [JStr ''0x''], JNum (1 :: int)] =
       Inr ''eth_getUncleByBlockNumberAndIndex''
   \<and> getBlockTransactionCountCall [JArr [JStr ''0x''], JNum (1 :: int)] =
       Inr ''eth_getBlockTransactionCountByNumber''
   \<and> uncleCountCall [JArr [JStr ''0x''], JNum (1 :: int)] =
       Inr ''eth_getUncleCountByBlockNumber''
   \<and> (\<forall>s. JObj [(''hash'', JStr ''0xabc'')] \<noteq> (JStr s :: int jsval))
   \<and> blockCall [JObj [(''hash'', JStr ''0xabc'')] :: int jsval] =
       Inr ''eth_getBlockByNumber''
   \<and> blockCall_run ([JStr ''0xabc'', JNum (1 :: int)], True) =
       (Inr ''eth_getBlockByHash'', ([JStr ''0xabc'', JNum 1], True))
   \<and> uncleCountCall_run ([JBool False :: int jsval], ''heap'') =
       (Inr ''eth_getUncleCountByBlockNumber'', ([JBool False], ''heap''))"
proof -
  have h1: "\<not> spec_looks_like_hash (js_index [JArr [JStr ''0x''], JNum (1 :: int)] 0)"
    by (simp add: js_index_def)
  have h2: "\<forall>s. JObj [(''hash'', JStr ''0xabc'')] \<noteq> (JStr s :: int jsval)"
    by simp
  have e1: "blockCall (fst ([JStr ''0xabc'', JNum (1 :: int)], True)) =
      Inr ''eth_getBlockByHash''"
    by (simp add: blockCall_eq js_index_def)
  have e2: "uncleCountCall (fst ([JBool False :: int jsval], ''heap'')) =
      Inr ''eth_getUncleCountByBlockNumber''"
    by (simp add: uncleCountCall_eq js_index_def)
  from h1 h2 e1 e2
    selectors_total [where args = "[JArr [JStr ''0x''], JNum (1 :: int)]"
      and rest = "[] :: int jsval list"
      and \<sigma> = "([JStr ''0xabc'', JNum (1 :: int)], True)"]
    selectors_total [where args = "[] :: int jsval list"
      and rest = "[] :: int jsval list"
      and \<sigma> = "([JBool False :: int jsval], ''heap'')"]
  show ?thesis by simp
qed

text \<open>
  C6. Each call selector depends on element 0 of the argument list only: two lists with
  the same element 0 (both absent counts as the same, it reads as \<^verbatim>\<open>undefined\<close>) give
  the same result, whatever their lengths and other elements.
\<close>

theorem selectors_depend_on_first_only:
  assumes "js_index args 0 = js_index args' 0"
  shows "blockCall args = blockCall args'
    \<and> transactionFromBlockCall args = transactionFromBlockCall args'
    \<and> uncleCall args = uncleCall args'
    \<and> getBlockTransactionCountCall args = getBlockTransactionCountCall args'
    \<and> uncleCountCall args = uncleCountCall args'"
  using assms by (simp add: selector_eqs)

theorem selectors_depend_on_first_only_witness:
  "js_index [JStr ''0xabc'', JNum (7 :: int), JNull] 0 = js_index [JStr ''0xabc'', JBool True] 0
   \<and> blockCall [JStr ''0xabc'', JNum (7 :: int), JNull] =
       blockCall [JStr ''0xabc'', JBool True :: int jsval]
   \<and> transactionFromBlockCall [JStr ''0xabc'', JNum (7 :: int), JNull] =
       transactionFromBlockCall [JStr ''0xabc'', JBool True :: int jsval]
   \<and> uncleCall [JStr ''0xabc'', JNum (7 :: int), JNull] =
       uncleCall [JStr ''0xabc'', JBool True :: int jsval]
   \<and> getBlockTransactionCountCall [JStr ''0xabc'', JNum (7 :: int), JNull] =
       getBlockTransactionCountCall [JStr ''0xabc'', JBool True :: int jsval]
   \<and> uncleCountCall [JStr ''0xabc'', JNum (7 :: int), JNull] =
       uncleCountCall [JStr ''0xabc'', JBool True :: int jsval]"
proof -
  have h: "js_index [JStr ''0xabc'', JNum (7 :: int), JNull] 0 =
      js_index [JStr ''0xabc'', JBool True] 0"
    by (simp add: js_index_def)
  from h selectors_depend_on_first_only [OF h] show ?thesis by blast
qed

text \<open>
  C10. The test is case-sensitive and anchored at position 0: for a string that begins
  with \<^verbatim>\<open>0X\<close>, and for a string in which \<^verbatim>\<open>0x\<close> occurs but not at the start, every
  call selector returns its by-number name.
\<close>

theorem selectors_case_sensitive_anchored:
  assumes "s = ''0X'' @ rest \<or> (s = pre @ ''0x'' @ post \<and> take 2 s \<noteq> ''0x'')"
  shows "blockCall (JStr s # others) = Inr ''eth_getBlockByNumber''
    \<and> transactionFromBlockCall (JStr s # others) =
        Inr ''eth_getTransactionByBlockNumberAndIndex''
    \<and> uncleCall (JStr s # others) = Inr ''eth_getUncleByBlockNumberAndIndex''
    \<and> getBlockTransactionCountCall (JStr s # others) =
        Inr ''eth_getBlockTransactionCountByNumber''
    \<and> uncleCountCall (JStr s # others) = Inr ''eth_getUncleCountByBlockNumber''"
proof -
  from assms have "take 2 s \<noteq> ''0x''" by auto
  then show ?thesis by (simp add: selector_eqs js_index_Cons_0)
qed

theorem selectors_case_sensitive_anchored_witness:
  "(''0XABC'' = ''0X'' @ ''ABC'' \<or> (''0XABC'' = [] @ ''0x'' @ [] \<and> take 2 ''0XABC'' \<noteq> ''0x''))
   \<and> blockCall [JStr ''0XABC'' :: int jsval] = Inr ''eth_getBlockByNumber''
   \<and> transactionFromBlockCall [JStr ''0XABC'' :: int jsval] =
       Inr ''eth_getTransactionByBlockNumberAndIndex''
   \<and> uncleCall [JStr ''0XABC'' :: int jsval] = Inr ''eth_getUncleByBlockNumberAndIndex''
   \<and> getBlockTransactionCountCall [JStr ''0XABC'' :: int jsval] =
       Inr ''eth_getBlockTransactionCountByNumber''
   \<and> uncleCountCall [JStr ''0XABC'' :: int jsval] = Inr ''eth_getUncleCountByBlockNumber''
   \<and> (''a0x1'' = ''0X'' @ [] \<or> (''a0x1'' = ''a'' @ ''0x'' @ ''1'' \<and> take 2 ''a0x1'' \<noteq> ''0x''))
   \<and> blockCall [JStr ''a0x1'' :: int jsval] = Inr ''eth_getBlockByNumber''
   \<and> transactionFromBlockCall [JStr ''a0x1'' :: int jsval] =
       Inr ''eth_getTransactionByBlockNumberAndIndex''
   \<and> uncleCall [JStr ''a0x1'' :: int jsval] = Inr ''eth_getUncleByBlockNumberAndIndex''
   \<and> getBlockTransactionCountCall [JStr ''a0x1'' :: int jsval] =
       Inr ''eth_getBlockTransactionCountByNumber''
   \<and> uncleCountCall [JStr ''a0x1'' :: int jsval] = Inr ''eth_getUncleCountByBlockNumber''"
proof -
  have h1: "''0XABC'' = ''0X'' @ ''ABC''
      \<or> (''0XABC'' = [] @ ''0x'' @ [] \<and> take 2 ''0XABC'' \<noteq> ''0x'')"
    by simp
  have h2: "''a0x1'' = ''0X'' @ []
      \<or> (''a0x1'' = ''a'' @ ''0x'' @ ''1'' \<and> take 2 ''a0x1'' \<noteq> ''0x'')"
    by simp
  from h1 h2
    selectors_case_sensitive_anchored [OF h1, of "[] :: int jsval list"]
    selectors_case_sensitive_anchored [OF h2, of "[] :: int jsval list"]
  show ?thesis by blast
qed

section \<open>The method table\<close>

lemmas method_defs =
  getBalance_def getStorageAt_def getCode_def getBlock_def getUncle_def getCompilers_def
  getBlockTransactounCount_def getBlockUncleCount_def getTransaction_def
  getTransactionFromBlock_def getTransactionCount_def call_method_def sendTransaction_def
  compileSolidity_def compileLLL_def compileSerpent_def flush_def

lemma method_names:
  "map method_descriptor.name (methods :: 'n method_descriptor list) =
     [''getBalance'', ''getStorageAt'', ''getCode'', ''getBlock'', ''getUncle'',
      ''getCompilers'', ''getBlockTransactionCount'', ''getBlockUncleCount'',
      ''getTransaction'', ''getTransactionFromBlock'', ''getTransactionCount'', ''call'',
      ''sendTransaction'', ''compile.solidity'', ''compile.lll'', ''compile.serpent'',
      ''flush'']"
  by (simp add: methods_def method_defs Method_def)

lemma method_paramCounts:
  "map paramCount (methods :: 'n method_descriptor list) =
     [2, 3, 2, 1, 1, 0, 1, 1, 1, 2, 2, 2, 1, 1, 1, 1, 0]"
  by (simp add: methods_def method_defs Method_def)

text \<open>
  C2. The method sequence holds the 17 operations of the spec's table in the table's
  order, each with the table's name, call (the fixed selector string, or the selector
  function of getBlock, getUncle, getBlockTransactionCount, getBlockUncleCount and
  getTransactionFromBlock), paramCount, input formatter and output formatter.
\<close>

theorem methods_match_table:
  "length (methods :: 'n method_descriptor list) = 17
   \<and> map method_descriptor.name (methods :: 'n method_descriptor list) =
     [''getBalance'', ''getStorageAt'', ''getCode'', ''getBlock'', ''getUncle'',
      ''getCompilers'', ''getBlockTransactionCount'', ''getBlockUncleCount'',
      ''getTransaction'', ''getTransactionFromBlock'', ''getTransactionCount'', ''call'',
      ''sendTransaction'', ''compile.solidity'', ''compile.lll'', ''compile.serpent'',
      ''flush'']
   \<and> map method_descriptor.call (methods :: 'n method_descriptor list) =
     [Fixed ''eth_getBalance'', Fixed ''eth_getStorageAt'', Fixed ''eth_getCode'',
      Selector blockCall, Selector uncleCall, Fixed ''eth_getCompilers'',
      Selector getBlockTransactionCountCall, Selector uncleCountCall,
      Fixed ''eth_getTransactionByHash'', Selector transactionFromBlockCall,
      Fixed ''eth_getTransactionCount'', Fixed ''eth_call'', Fixed ''eth_sendTransaction'',
      Fixed ''eth_compileSolidity'', Fixed ''eth_compileLLL'', Fixed ''eth_compileSerpent'',
      Fixed ''eth_flush'']
   \<and> map paramCount (methods :: 'n method_descriptor list) =
     [2, 3, 2, 1, 1, 0, 1, 1, 1, 2, 2, 2, 1, 1, 1, 1, 0]
   \<and> map method_descriptor.inputFormatter (methods :: 'n method_descriptor list) =
     [None, None, None,
      Some (Single formatters_inputBlockFormatter),
      Some (Single formatters_inputUncleFormatter),
      None,
      Some (Single utils_toHex), Some (Single utils_toHex),
      None,
      Some (Single utils_toHex),
      None,
      Some (Single formatters_inputCallFormatter),
      Some (Single formatters_inputTransactionFormatter),
      None,
      Some (Single utils_toHex), Some (Single utils_toHex),
      None]
   \<and> map method_descriptor.outputFormatter (methods :: 'n method_descriptor list) =
     [Some formatters_inputNumberFormatter, None, None,
      Some formatters_outputBlockFormatter, Some formatters_outputBlockFormatter,
      None,
      Some utils_toDecimal, Some utils_toDecimal,
      Some formatters_outputTransactionFormatter,
      Some formatters_outputTransactionFormatter,
      Some utils_toDecimal,
      None, None, None, None, None, None]"
  by (simp add: methods_def method_defs Method_def)

text \<open>
  C3. The descriptor named getTransactionFromBlock declares paramCount 2, has the
  hash/number selector function as its call and the transaction-result output formatter,
  and its input formatter is the single hex conversion, not an array of formatters.
\<close>

theorem getTransactionFromBlock_shape:
  "find (\<lambda>m. method_descriptor.name m = ''getTransactionFromBlock'')
       (methods :: 'n method_descriptor list) = Some getTransactionFromBlock
   \<and> paramCount (getTransactionFromBlock :: 'n method_descriptor) = 2
   \<and> method_descriptor.call (getTransactionFromBlock :: 'n method_descriptor) =
       Selector transactionFromBlockCall
   \<and> method_descriptor.outputFormatter (getTransactionFromBlock :: 'n method_descriptor) =
       Some formatters_outputTransactionFormatter
   \<and> method_descriptor.inputFormatter (getTransactionFromBlock :: 'n method_descriptor) =
       Some (Single utils_toHex)
   \<and> (\<forall>fs. method_descriptor.inputFormatter (getTransactionFromBlock :: 'n method_descriptor)
           \<noteq> Some (PerArgument fs))"
  by (simp add: methods_def method_defs Method_def)

text \<open>
  C7. No two descriptors of the method sequence have the same name, and no two
  descriptors of the property sequence have the same name.
\<close>

theorem names_unique:
  "distinct (map method_descriptor.name (methods :: 'n method_descriptor list))
   \<and> distinct (map property_descriptor.name properties)"
  by (simp add: method_names properties_def)

text \<open>
  C9. Every descriptor of the method sequence declares a paramCount that is an integer
  and is not negative.
\<close>

theorem paramCount_nonnegative:
  "\<forall>m \<in> set (methods :: 'n method_descriptor list). 0 \<le> paramCount m"
proof -
  have "\<forall>n \<in> set (map paramCount (methods :: 'n method_descriptor list)). 0 \<le> n"
    unfolding method_paramCounts by simp
  then show ?thesis by simp
qed

theorem paramCount_nonnegative_witness:
  "(getStorageAt :: int method_descriptor) \<in> set methods
   \<and> 0 \<le> paramCount (getStorageAt :: int method_descriptor)
   \<and> (flush :: int method_descriptor) \<in> set methods
   \<and> 0 \<le> paramCount (flush :: int method_descriptor)"
proof -
  have h1: "(getStorageAt :: int method_descriptor) \<in> set methods"
    by (simp add: methods_def)
  have h2: "(flush :: int method_descriptor) \<in> set methods"
    by (simp add: methods_def)
  from h1 h2 paramCount_nonnegative [THEN bspec, OF h1]
    paramCount_nonnegative [THEN bspec, OF h2]
  show ?thesis by blast
qed

section \<open>The property table\<close>

text \<open>
  C4. The property sequence is, in order: coinbase (getter \<^verbatim>\<open>eth_coinbase\<close> only),
  mining (getter only), gasPrice (getter and the numeric output formatter), accounts
  (getter only), blockNumber (getter and the decimal output formatter), then the
  deprecated aliases listening (for \<^verbatim>\<open>net.listening\<close>, with a getter and the setter
  \<^verbatim>\<open>eth_setListening\<close>), peerCount (for \<^verbatim>\<open>net.peerCount\<close>, getter only) and number (for
  \<^verbatim>\<open>eth.blockNumber\<close>, getter only). Looking the name listening up yields a descriptor
  whose deprecated member is \<^verbatim>\<open>net.listening\<close> and whose setter is \<^verbatim>\<open>eth_setListening\<close>.
\<close>

theorem properties_match_spec:
  "map property_descriptor.name properties =
     [''coinbase'', ''mining'', ''gasPrice'', ''accounts'', ''blockNumber'',
      ''listening'', ''peerCount'', ''number'']
   \<and> map getter properties =
     [''eth_coinbase'', ''eth_mining'', ''eth_gasPrice'', ''eth_accounts'',
      ''eth_blockNumber'', ''net_listening'', ''net_peerCount'', ''eth_number'']
   \<and> map setter properties =
     [None, None, None, None, None, Some ''eth_setListening'', None, None]
   \<and> map property_descriptor.outputFormatter properties =
     [None, None, Some formatters_inputNumberFormatter, None, Some utils_toDecimal,
      None, None, None]
   \<and> map deprecated properties =
     [None, None, None, None, None,
      Some ''net.listening'', Some ''net.peerCount'', Some ''eth.blockNumber'']
   \<and> map_option deprecated
        (find (\<lambda>p. property_descriptor.name p = ''listening'') properties) =
      Some (Some ''net.listening'')
   \<and> map_option setter
        (find (\<lambda>p. property_descriptor.name p = ''listening'') properties) =
      Some (Some ''eth_setListening'')"
  by (simp add: properties_def)

text \<open>
  C8. Every descriptor of the property sequence that has a deprecated member names a
  replacement path there that is not empty and differs from the descriptor's own name.
\<close>

theorem deprecated_path_nonempty_distinct:
  "\<forall>p \<in> set properties. \<forall>d. deprecated p = Some d \<longrightarrow>
     d \<noteq> [] \<and> d \<noteq> property_descriptor.name p"
  by (simp add: properties_def)

theorem deprecated_path_nonempty_distinct_witness:
  "properties ! 5 \<in> set properties
   \<and> deprecated (properties ! 5) = Some ''net.listening''
   \<and> ''net.listening'' \<noteq> []
   \<and> ''net.listening'' \<noteq> property_descriptor.name (properties ! 5)"
proof -
  have h1: "properties ! 5 \<in> set properties"
    by (simp add: properties_def)
  have h2: "deprecated (properties ! 5) = Some ''net.listening''"
    by (simp add: properties_def)
  from h1 h2
    deprecated_path_nonempty_distinct [THEN bspec, OF h1, THEN spec, THEN mp, OF h2]
  show ?thesis by blast
qed

end
